theory Spec2Isabelle
  imports Main "HOL-Library.AList"
begin

section \<open>JavaScript strings, arrays and objects\<close>

text \<open>
  A JavaScript string is modelled as a \<^typ>\<open>string\<close>, one \<^typ>\<open>char\<close> per code unit
  below 256.  \<open>String.prototype.trim\<close> removes the white space and line terminator
  code units from both ends; below 256 these are TAB, LF, VT, FF, CR, SPACE and NBSP.
\<close>

definition is_ws :: "char \<Rightarrow> bool" where
  "is_ws c \<longleftrightarrow> c \<in> {CHR 0x09, CHR 0x0A, CHR 0x0B, CHR 0x0C, CHR 0x0D, CHR 0x20, CHR 0xA0}"

definition trim :: "string \<Rightarrow> string" where
  "trim s = rev (dropWhile is_ws (rev (dropWhile is_ws s)))"

text \<open>\<open>s.split(sep)\<close> for a one-character separator: never empty, \<open>''.split(sep) = ['']\<close>.\<close>

fun split_on :: "char \<Rightarrow> string \<Rightarrow> string list" where
  "split_on sep [] = [[]]"
| "split_on sep (c # cs) =
     (if c = sep then [] # split_on sep cs
      else (case split_on sep cs of
              [] \<Rightarrow> [[c]]
            | w # ws \<Rightarrow> (c # w) # ws))"

text \<open>\<open>xs.join(sep)\<close>.\<close>

fun join :: "string \<Rightarrow> string list \<Rightarrow> string" where
  "join sep [] = []"
| "join sep [x] = x"
| "join sep (x # y # ys) = x @ sep @ join sep (y # ys)"

definition dquote :: char where
  "dquote = CHR 0x22"

text \<open>
  \<open>s.replace(/^"|"$/g, '')\<close>: the global pattern deletes a double quote at the start of
  the string and a double quote at the end of the string, each on its own; the two
  matches never overlap, so the quote at the end is looked for in what follows a deleted
  leading quote.
\<close>

definition strip_quotes :: "string \<Rightarrow> string" where
  "strip_quotes s =
     (let s1 = (case s of [] \<Rightarrow> [] | c # cs \<Rightarrow> if c = dquote then cs else s)
      in if s1 \<noteq> [] \<and> last s1 = dquote then butlast s1 else s1)"

text \<open>\<open>xs[i]\<close> is \<open>undefined\<close> out of range; \<open>v || d\<close> on a string or \<open>undefined\<close>.\<close>

definition js_index :: "'a list \<Rightarrow> nat \<Rightarrow> 'a option" where
  "js_index xs i = (if i < length xs then Some (xs ! i) else None)"

definition or_str :: "string option \<Rightarrow> string \<Rightarrow> string" where
  "or_str v d = (case v of None \<Rightarrow> d | Some s \<Rightarrow> if s = [] then d else s)"

text \<open>
  A \<open>Record<string, string>\<close> is an association list with distinct keys in insertion
  order; \<open>row[k] = v\<close> is \<^const>\<open>AList.update\<close>, which overwrites an existing key in
  place and appends a new one.  Every key is taken to be an ordinary own property.
\<close>

type_synonym row = "(string \<times> string) list"

section \<open>CSV import parser (InlineAddEntry.tsx, parseCsvFile)\<close>

datatype js_error = Error string

definition MalformedFile :: js_error where
  "MalformedFile = Error ''CSV file must have at least a header row and one data row''"

definition ReadFailed :: js_error where
  "ReadFailed = Error ''Failed to read file''"

text \<open>\<open>line.split(',').map(v => v.trim().replace(/^"|"$/g, ''))\<close>\<close>

definition csv_fields :: "string \<Rightarrow> string list" where
  "csv_fields line = map (\<lambda>v. strip_quotes (trim v)) (split_on CHR '','' line)"

text \<open>\<open>headers.forEach((header, index) => { row[header] = values[index] || '' })\<close>\<close>

definition mk_row :: "string list \<Rightarrow> string list \<Rightarrow> row" where
  "mk_row headers vals =
     fold (\<lambda>(index, header) row. AList.update header (or_str (js_index vals index) []) row)
          (enumerate 0 headers) []"

text \<open>\<open>text.split('\n').filter(line => line.trim())\<close>\<close>

definition csv_lines :: "string \<Rightarrow> string list" where
  "csv_lines text = filter (\<lambda>line. trim line \<noteq> []) (split_on CHR 0x0A text)"

text \<open>The body of \<open>reader.onload\<close>, on the text that was read.\<close>

definition parseCsvText :: "string \<Rightarrow> js_error + row list" where
  "parseCsvText text =
     (let lines = csv_lines text in
      if length lines < 2 then Inl MalformedFile
      else
        let headers = csv_fields (hd lines) in
        Inr (map (\<lambda>line. mk_row headers (csv_fields line)) (drop 1 lines)))"

text \<open>A \<open>File\<close>: its name and what \<open>FileReader.readAsText\<close> yields (\<open>None\<close>: \<open>onerror\<close>).\<close>

record csv_file =
  file_name :: string
  file_text :: "string option"

definition parseCsvFile :: "csv_file \<Rightarrow> js_error + row list" where
  "parseCsvFile f =
     (case file_text f of
        None \<Rightarrow> Inl ReadFailed
      | Some text \<Rightarrow> parseCsvText text)"


section \<open>The browser and the backend, as the component sees them\<close>

text \<open>Decimal rendering of a number inside a template literal.\<close>

fun show_nat :: "nat \<Rightarrow> string" where
  "show_nat n =
     (if n < 10 then [char_of (48 + n)]
      else show_nat (n div 10) @ [char_of (48 + n mod 10)])"

declare show_nat.simps [simp del]

definition show_int :: "int \<Rightarrow> string" where
  "show_int i = (if i < 0 then CHR ''-'' # show_nat (nat (- i)) else show_nat (nat i))"

datatype body =
    NoBody
  | JsonBody row
  | FormBody "(string \<times> csv_file) list"

record request =
  req_method :: string
  req_url :: string
  req_headers :: "(string \<times> string) list"
  req_body :: body

text \<open>
  What the client reads of a response: \<open>ok\<close>, \<open>status\<close>, and of the body parsed by
  \<open>response.json()\<close> (which rejects when the body is not JSON) the members \<open>detail\<close> and
  \<open>items_added\<close>, each possibly absent.
\<close>

record json_reply =
  detail :: "string option"
  items_added :: "nat option"

record response =
  ok :: bool
  status :: nat
  json :: "js_error + json_reply"

datatype fetch_result =
    Rejected js_error
  | Resolved response

text \<open>
  The network and the backend behind it: any function from its own state and a request to
  an outcome and a new state.  The world holds that state, the exchanges so far in the
  order the requests were issued, the number of calls of \<open>onEntryAdded\<close>, the browser's
  local storage and the files the browser was told to save.
\<close>

type_synonym 'n network = "'n \<Rightarrow> request \<Rightarrow> fetch_result \<times> 'n"

record 'n world =
  net :: 'n
  exchanges :: "(request \<times> fetch_result) list"
  refreshes :: nat
  localStorage :: "(string \<times> string) list"
  downloads :: "(string \<times> string) list"

definition fetch :: "'n network \<Rightarrow> request \<Rightarrow> 'n world \<Rightarrow> fetch_result \<times> 'n world" where
  "fetch nw req w =
     (case nw (net w) req of
        (res, n') \<Rightarrow> (res, w\<lparr>net := n', exchanges := exchanges w @ [(req, res)]\<rparr>))"

definition failed :: "fetch_result \<Rightarrow> bool" where
  "failed res = (case res of Rejected e \<Rightarrow> True | Resolved r \<Rightarrow> \<not> ok r)"

section \<open>CSV template engine (utils/csvTemplates.ts)\<close>

record template =
  headers :: "string list"
  sampleData :: "string list list"
  filename :: string

definition target_lists_template :: template where
  "target_lists_template =
     \<lparr>headers = [''hcp_id'', ''hcp_name'', ''specialty'', ''territory'', ''tier''],
      sampleData =
        [[''HCP001'', ''Dr. Rajesh Kumar'', ''Cardiology'', ''North Delhi'', ''A''],
         [''HCP002'', ''Dr. Priya Sharma'', ''Neurology'', ''South Mumbai'', ''A''],
         [''HCP003'', ''Dr. Amit Patel'', ''Orthopedics'', ''East Bangalore'', ''B''],
         [''HCP004'', ''Dr. Sneha Reddy'', ''Oncology'', ''West Delhi'', ''A''],
         [''HCP005'', ''Dr. Vikram Singh'', ''Gastroenterology'', ''Central Gurugram'', ''B'']],
      filename = ''target_lists_sample.csv''\<rparr>"

definition call_lists_template :: template where
  "call_lists_template =
     \<lparr>headers = [''hcp_id'', ''hcp_name'', ''call_date'', ''sales_rep'', ''status''],
      sampleData =
        [[''HCP001'', ''Dr. Rajesh Kumar'', ''2025-11-01'', ''Arjun Kapoor'', ''Scheduled''],
         [''HCP002'', ''Dr. Priya Sharma'', ''2025-11-02'', ''Pooja Singh'', ''Scheduled''],
         [''HCP003'', ''Dr. Amit Patel'', ''2025-11-03'', ''Ravi Verma'', ''Pending''],
         [''HCP004'', ''Dr. Sneha Reddy'', ''2025-11-04'', ''Neha Agarwal'', ''Scheduled''],
         [''HCP005'', ''Dr. Vikram Singh'', ''2025-11-05'', ''Rahul Joshi'', ''Completed'']],
      filename = ''call_lists_sample.csv''\<rparr>"

definition formulary_decision_maker_lists_template :: template where
  "formulary_decision_maker_lists_template =
     \<lparr>headers = [''contact_id'', ''contact_name'', ''organization'', ''email'', ''influence_level''],
      sampleData =
        [[''FDM001'', ''Dr. Rajiv Malhotra'', ''Max Healthcare'', ''rajiv.malhotra@max.com'', ''High''],
         [''FDM002'', ''Dr. Sunita Verma'', ''Apollo Hospitals'', ''sunita.verma@apollo.com'', ''High''],
         [''FDM003'', ''Mr. Anil Chopra'', ''Fortis Healthcare'', ''anil.chopra@fortis.com'', ''Medium''],
         [''FDM004'', ''Dr. Kiran Patel'', ''Medanta Hospital'', ''kiran.patel@medanta.com'', ''High''],
         [''FDM005'', ''Ms. Rekha Nair'', ''AIIMS Delhi'', ''rekha.nair@aiims.edu'', ''High'']],
      filename = ''formulary_decision_maker_lists_sample.csv''\<rparr>"

definition idn_health_system_lists_template :: template where
  "idn_health_system_lists_template =
     \<lparr>headers = [''system_id'', ''system_name'', ''contact_name'', ''contact_email'', ''importance''],
      sampleData =
        [[''IDN001'', ''Apollo Hospitals Group'', ''Dr. Ravi Shankar'', ''ravi.shankar@apollo.com'', ''Tier 1''],
         [''IDN002'', ''Fortis Healthcare Network'', ''Ms. Priya Mathur'', ''priya.mathur@fortis.com'', ''Tier 1''],
         [''IDN003'', ''Max Healthcare System'', ''Mr. Sandeep Gupta'', ''sandeep.gupta@max.com'', ''Tier 2''],
         [''IDN004'', ''Medanta Network'', ''Dr. Arvind Kumar'', ''arvind.kumar@medanta.com'', ''Tier 1''],
         [''IDN005'', ''Narayana Health Group'', ''Dr. Lakshmi Rao'', ''lakshmi.rao@narayana.com'', ''Tier 2'']],
      filename = ''idn_health_system_lists_sample.csv''\<rparr>"

definition event_invitation_lists_template :: template where
  "event_invitation_lists_template =
     \<lparr>headers = [''event_name'', ''event_date'', ''invitee_id'', ''invitee_name'', ''email'', ''status''],
      sampleData =
        [[''Cardiology Summit 2025'', ''2025-12-15'', ''HCP001'', ''Dr. Rajesh Kumar'', ''rajesh.kumar@apollo.com'', ''Invited''],
         [''Neurology Conference'', ''2025-12-20'', ''HCP002'', ''Dr. Priya Sharma'', ''priya.sharma@fortis.com'', ''Confirmed''],
         [''Oncology Workshop'', ''2026-01-10'', ''HCP004'', ''Dr. Sneha Reddy'', ''sneha.reddy@aiims.edu'', ''Invited''],
         [''Gastro Symposium'', ''2026-01-25'', ''HCP005'', ''Dr. Vikram Singh'', ''vikram.singh@medanta.com'', ''Pending''],
         [''Endocrine Conclave'', ''2026-02-05'', ''HCP006'', ''Dr. Ananya Iyer'', ''ananya.iyer@apollo.com'', ''Confirmed'']],
      filename = ''event_invitation_lists_sample.csv''\<rparr>"

definition digital_engagement_lists_template :: template where
  "digital_engagement_lists_template =
     \<lparr>headers = [''contact_id'', ''contact_name'', ''email'', ''specialty'', ''opt_in''],
      sampleData =
        [[''DG001'', ''Dr. Rajesh Kumar'', ''rajesh.kumar@apollo.com'', ''Cardiology'', ''TRUE''],
         [''DG002'', ''Dr. Priya Sharma'', ''priya.sharma@fortis.com'', ''Neurology'', ''TRUE''],
         [''DG003'', ''Dr. Amit Patel'', ''amit.patel@max.com'', ''Orthopedics'', ''FALSE''],
         [''DG004'', ''Dr. Sneha Reddy'', ''sneha.reddy@aiims.edu'', ''Oncology'', ''TRUE''],
         [''DG005'', ''Dr. Vikram Singh'', ''vikram.singh@medanta.com'', ''Gastroenterology'', ''TRUE'']],
      filename = ''digital_engagement_lists_sample.csv''\<rparr>"

definition high_value_prescriber_lists_template :: template where
  "high_value_prescriber_lists_template =
     \<lparr>headers = [''hcp_id'', ''hcp_name'', ''specialty'', ''territory'', ''total_prescriptions'', ''revenue'', ''value_tier''],
      sampleData =
        [[''HCP001'', ''Dr. Rajesh Kumar'', ''Cardiology'', ''North Delhi'', ''850'', ''125000.50'', ''Platinum''],
         [''HCP002'', ''Dr. Priya Sharma'', ''Neurology'', ''South Mumbai'', ''720'', ''98000.75'', ''Gold''],
         [''HCP003'', ''Dr. Amit Patel'', ''Orthopedics'', ''East Bangalore'', ''550'', ''72000.00'', ''Gold''],
         [''HCP004'', ''Dr. Sneha Reddy'', ''Oncology'', ''West Delhi'', ''920'', ''145000.25'', ''Platinum''],
         [''HCP005'', ''Dr. Vikram Singh'', ''Gastroenterology'', ''Central Gurugram'', ''480'', ''65000.00'', ''Silver'']],
      filename = ''high_value_prescriber_lists_sample.csv''\<rparr>"

definition competitor_target_lists_template :: template where
  "competitor_target_lists_template =
     \<lparr>headers = [''hcp_id'', ''hcp_name'', ''specialty'', ''territory'', ''competitor_product'', ''conversion_potential'', ''assigned_rep''],
      sampleData =
        [[''HCP011'', ''Dr. Ramesh Patel'', ''Cardiology'', ''North Delhi'', ''CompetitorX CardioMed'', ''High'', ''Arjun Kapoor''],
         [''HCP012'', ''Dr. Lakshmi Menon'', ''Neurology'', ''South Mumbai'', ''CompetitorY NeuroPlus'', ''Medium'', ''Pooja Singh''],
         [''HCP013'', ''Dr. Sunil Reddy'', ''Orthopedics'', ''East Bangalore'', ''CompetitorZ BoneCare'', ''High'', ''Ravi Verma''],
         [''HCP014'', ''Dr. Anjali Desai'', ''Oncology'', ''West Delhi'', ''CompetitorX OncoMax'', ''High'', ''Neha Agarwal''],
         [''HCP015'', ''Dr. Karthik Iyer'', ''Gastroenterology'', ''Central Gurugram'', ''CompetitorY GastroRelief'', ''Low'', ''Rahul Joshi'']],
      filename = ''competitor_target_lists_sample.csv''\<rparr>"

definition CSV_TEMPLATES :: "(string \<times> template) list" where
  "CSV_TEMPLATES =
     [(''Target Lists'', target_lists_template),
      (''Call Lists'', call_lists_template),
      (''Formulary Decision-Maker Lists'', formulary_decision_maker_lists_template),
      (''IDN/Health System Lists'', idn_health_system_lists_template),
      (''Event Invitation Lists'', event_invitation_lists_template),
      (''Digital Engagement Lists'', digital_engagement_lists_template),
      (''High-Value Prescriber Lists'', high_value_prescriber_lists_template),
      (''Competitor Target Lists'', competitor_target_lists_template)]"

text \<open>\<open>[headers, ...data].map(row => row.join(',')).join('\n')\<close>\<close>

definition arrayToCSV :: "string list \<Rightarrow> string list list \<Rightarrow> string" where
  "arrayToCSV hs data = join [CHR 0x0A] (map (\<lambda>r. join '','' r) (hs # data))"

text \<open>The browser is told to save \<open>content\<close> under \<open>filename\<close>.\<close>

definition downloadCSV :: "string \<Rightarrow> string \<Rightarrow> 'n world \<Rightarrow> 'n world" where
  "downloadCSV content name w = w\<lparr>downloads := downloads w @ [(name, content)]\<rparr>"

text \<open>An unknown list type is logged to the console and nothing is saved.\<close>

definition downloadSampleCSV :: "string \<Rightarrow> 'n world \<Rightarrow> 'n world" where
  "downloadSampleCSV listType w =
     (case map_of CSV_TEMPLATES listType of
        None \<Rightarrow> w
      | Some t \<Rightarrow> downloadCSV (arrayToCSV (headers t) (sampleData t)) (filename t) w)"

definition getListTypeFromSubdomain :: "string \<Rightarrow> string option" where
  "getListTypeFromSubdomain name =
     (case map_of
             [(''Target Lists'', ''Target Lists''),
              (''Call Lists'', ''Call Lists''),
              (''Formulary Decision-Maker Lists'', ''Formulary Decision-Maker Lists''),
              (''IDN/Health System Lists'', ''IDN/Health System Lists''),
              (''Event Invitation Lists'', ''Event Invitation Lists''),
              (''Digital Engagement Lists'', ''Digital Engagement Lists''),
              (''High-Value Prescriber Lists'', ''High-Value Prescriber Lists''),
              (''Competitor Target Lists'', ''Competitor Target Lists'')] name of
        None \<Rightarrow> None
      | Some t \<Rightarrow> if t = [] then None else Some t)"

section \<open>Import orchestrator (InlineAddEntry.tsx)\<close>

datatype add_mode = Manual | Csv

text \<open>The toast types \<open>'success' | 'error' | 'warning' | 'info'\<close>; \<open>Failure\<close> is \<open>'error'\<close>.\<close>

datatype toast_type = Success | Failure | Warning | Info

record toast_msg =
  message :: string
  toast_kind :: toast_type

record ui =
  isAdding :: bool
  showMenu :: bool
  addMode :: "add_mode option"
  formData :: row
  toast :: "toast_msg option"
  isSaving :: bool
  isUploading :: bool
  selectedFile :: "csv_file option"

record props =
  columns :: "string list"
  tableName :: string
  listId :: "int option"
  subdomainName :: "string option"

definition initial_ui :: ui where
  "initial_ui = \<lparr>isAdding = False, showMenu = False, addMode = None, formData = [],
     toast = None, isSaving = False, isUploading = False, selectedFile = None\<rparr>"

definition handleInputChange :: "string \<Rightarrow> string \<Rightarrow> ui \<Rightarrow> ui" where
  "handleInputChange column v st = st\<lparr>formData := AList.update column v (formData st)\<rparr>"

definition handleManualAdd :: "props \<Rightarrow> ui \<Rightarrow> ui" where
  "handleManualAdd p st =
     st\<lparr>addMode := Some Manual, isAdding := True, showMenu := False,
        formData := fold (\<lambda>col initialData. AList.update col [] initialData) (columns p) []\<rparr>"

definition handleCsvAdd :: "ui \<Rightarrow> ui" where
  "handleCsvAdd st = st\<lparr>addMode := Some Csv, isAdding := True, showMenu := False\<rparr>"

definition handleCancel :: "ui \<Rightarrow> ui" where
  "handleCancel st =
     st\<lparr>isAdding := False, addMode := None, formData := [], selectedFile := None,
        showMenu := False\<rparr>"

text \<open>\<open>file.name.endsWith('.csv')\<close>\<close>

definition endsWith :: "string \<Rightarrow> string \<Rightarrow> bool" where
  "endsWith s suffix =
     (length suffix \<le> length s \<and> drop (length s - length suffix) s = suffix)"

definition handleFileChange :: "csv_file option \<Rightarrow> ui \<Rightarrow> ui" where
  "handleFileChange chosen st =
     (case chosen of
        None \<Rightarrow> st
      | Some f \<Rightarrow>
          if \<not> endsWith (file_name f) ''.csv''
          then st\<lparr>toast := Some \<lparr>message = ''Please select a CSV file'', toast_kind = Failure\<rparr>\<rparr>
          else st\<lparr>selectedFile := Some f\<rparr>)"

text \<open>
  \<open>Object.fromEntries(Object.entries(row).filter(([_, value]) => value.trim() !== ''))\<close>;
  \<open>Object.keys(dataToSend).length === 0\<close> is then \<open>dataToSend = []\<close>.
\<close>

definition nonEmptyFields :: "row \<Rightarrow> row" where
  "nonEmptyFields r = filter (\<lambda>(k, v). trim v \<noteq> []) r"

text \<open>A row of the batch for which a create request is issued.\<close>

definition submitted :: "row \<Rightarrow> bool" where
  "submitted r \<longleftrightarrow> nonEmptyFields r \<noteq> []"

text \<open>The POST that creates one entry: \<open>fetch(`http://localhost:8000/api/${tableName}`, ...)\<close>.\<close>

definition create_request :: "string \<Rightarrow> row \<Rightarrow> request" where
  "create_request table dataToSend =
     \<lparr>req_method = ''POST'',
      req_url = ''http://localhost:8000/api/'' @ table,
      req_headers = [(''Content-Type'', ''application/json'')],
      req_body = JsonBody dataToSend\<rparr>"

text \<open>The POST of the list-scoped bulk upload.\<close>

definition upload_request :: "int \<Rightarrow> csv_file \<Rightarrow> request" where
  "upload_request lid f =
     \<lparr>req_method = ''POST'',
      req_url = ''http://localhost:8000/api/lists/'' @ show_int lid @ ''/upload-csv'',
      req_headers = [],
      req_body = FormBody [(''file'', f)]\<rparr>"

text \<open>
  \<open>throw new Error(errorData.detail || `Server error: ${response.status}`)\<close>, where
  \<open>errorData\<close> is the parsed body, or \<open>{ detail: 'Unknown error' }\<close> when parsing rejects.
\<close>

definition server_error :: "response \<Rightarrow> js_error" where
  "server_error r =
     (let errorData =
            (case json r of
               Inl e \<Rightarrow> \<lparr>detail = Some ''Unknown error'', items_added = None\<rparr>
             | Inr d \<Rightarrow> d)
      in Error (or_str (detail errorData) (''Server error: '' @ show_nat (status r))))"

text \<open>
  The \<open>for (const row of rows)\<close> loop of the per-row import, with its two counters.  A row
  left without fields is counted and skipped; a request that rejects is caught by the
  \<open>try\<close> inside the loop and counted.
\<close>

fun upload_rows ::
  "'n network \<Rightarrow> string \<Rightarrow> row list \<Rightarrow> nat \<times> nat \<Rightarrow> 'n world \<Rightarrow> (nat \<times> nat) \<times> 'n world"
where
  "upload_rows nw table [] (successCount, errorCount) w = ((successCount, errorCount), w)"
| "upload_rows nw table (r # rows) (successCount, errorCount) w =
     (let dataToSend = nonEmptyFields r in
      if dataToSend = [] then upload_rows nw table rows (successCount, errorCount + 1) w
      else
        (case fetch nw (create_request table dataToSend) w of
           (Rejected e, w') \<Rightarrow> upload_rows nw table rows (successCount, errorCount + 1) w'
         | (Resolved response, w') \<Rightarrow>
             if ok response
             then upload_rows nw table rows (successCount + 1, errorCount) w'
             else upload_rows nw table rows (successCount, errorCount + 1) w'))"

definition tally_toast :: "nat \<Rightarrow> nat \<Rightarrow> toast_msg" where
  "tally_toast successCount errorCount =
     (if errorCount > 0
      then \<lparr>message = ''Uploaded '' @ show_nat successCount @ '' entries successfully. ''
                        @ show_nat errorCount @ '' entries failed.'',
            toast_kind = Warning\<rparr>
      else \<lparr>message = ''Successfully uploaded '' @ show_nat successCount @ '' entries!'',
            toast_kind = Success\<rparr>)"

text \<open>
  The body of the outer \<open>try\<close> of \<open>handleCsvUpload\<close> up to the toast: \<open>Inl\<close> is the error
  thrown to the outer \<open>catch\<close>, \<open>Inr\<close> the toast of a completed upload.  \<open>if (listId)\<close>
  holds for a number that is present and not zero.
\<close>

definition csv_upload_body ::
  "'n network \<Rightarrow> props \<Rightarrow> csv_file \<Rightarrow> 'n world \<Rightarrow> (js_error + toast_msg) \<times> 'n world"
where
  "csv_upload_body nw p f w =
     (case (case listId p of None \<Rightarrow> None | Some lid \<Rightarrow> if lid = 0 then None else Some lid) of
        Some lid \<Rightarrow>
          (case fetch nw (upload_request lid f) w of
             (Rejected e, w') \<Rightarrow> (Inl e, w')
           | (Resolved response, w') \<Rightarrow>
               if \<not> ok response then (Inl (server_error response), w')
               else
                 (case json response of
                    Inl e \<Rightarrow> (Inl e, w')
                  | Inr result \<Rightarrow>
                      (Inr \<lparr>message = ''Successfully uploaded ''
                                @ show_nat (case items_added result of None \<Rightarrow> 0 | Some n \<Rightarrow> n)
                                @ '' entries!'',
                            toast_kind = Success\<rparr>, w')))
      | None \<Rightarrow>
          (case parseCsvFile f of
             Inl e \<Rightarrow> (Inl e, w)
           | Inr rows \<Rightarrow>
               (case upload_rows nw (tableName p) rows (0, 0) w of
                  ((successCount, errorCount), w') \<Rightarrow>
                    (Inr (tally_toast successCount errorCount), w'))))"

definition handleCsvUpload :: "'n network \<Rightarrow> props \<Rightarrow> ui \<Rightarrow> 'n world \<Rightarrow> ui \<times> 'n world" where
  "handleCsvUpload nw p st w =
     (case selectedFile st of
        None \<Rightarrow>
          (st\<lparr>toast := Some \<lparr>message = ''Please select a CSV file'', toast_kind = Warning\<rparr>\<rparr>, w)
      | Some f \<Rightarrow>
          (case csv_upload_body nw p f w of
             (Inr t, w') \<Rightarrow>
               (st\<lparr>toast := Some t, isAdding := False, addMode := None,
                   selectedFile := None, isUploading := False\<rparr>,
                w'\<lparr>refreshes := refreshes w' + 1\<rparr>)
           | (Inl (Error msg), w') \<Rightarrow>
               (st\<lparr>toast := Some \<lparr>message = msg, toast_kind = Failure\<rparr>,
                   isUploading := False\<rparr>, w')))"

definition handleSave :: "'n network \<Rightarrow> props \<Rightarrow> ui \<Rightarrow> 'n world \<Rightarrow> ui \<times> 'n world" where
  "handleSave nw p st w =
     (let dataToSend = nonEmptyFields (formData st) in
      if dataToSend = []
      then (st\<lparr>toast := Some \<lparr>message = ''Please fill in at least one field'',
                                toast_kind = Warning\<rparr>,
               isSaving := False\<rparr>, w)
      else
        (case (case fetch nw (create_request (tableName p) dataToSend) w of
                 (Rejected e, w') \<Rightarrow> (Inl e, w')
               | (Resolved response, w') \<Rightarrow>
                   if \<not> ok response then (Inl (server_error response), w')
                   else (case json response of
                           Inl e \<Rightarrow> (Inl e, w')
                         | Inr result \<Rightarrow> (Inr result, w'))) of
           (Inr result, w') \<Rightarrow>
             (st\<lparr>toast := Some \<lparr>message = ''Entry added successfully!'', toast_kind = Success\<rparr>,
                 isAdding := False, formData := [], isSaving := False\<rparr>,
              w'\<lparr>refreshes := refreshes w' + 1\<rparr>)
         | (Inl (Error msg), w') \<Rightarrow>
             (st\<lparr>toast := Some \<lparr>message = msg, toast_kind = Failure\<rparr>, isSaving := False\<rparr>, w')))"

definition handleDownloadSample :: "props \<Rightarrow> ui \<Rightarrow> 'n world \<Rightarrow> ui \<times> 'n world" where
  "handleDownloadSample p st w =
     (case (case subdomainName p of None \<Rightarrow> None | Some n \<Rightarrow> if n = [] then None else Some n) of
        None \<Rightarrow>
          (st\<lparr>toast := Some \<lparr>message = ''Unable to determine list type for sample CSV'',
                              toast_kind = Failure\<rparr>\<rparr>, w)
      | Some n \<Rightarrow>
          (case getListTypeFromSubdomain n of
             None \<Rightarrow>
               (st\<lparr>toast := Some \<lparr>message = ''No sample template available for this list type'',
                                   toast_kind = Failure\<rparr>\<rparr>, w)
           | Some listType \<Rightarrow>
               (st\<lparr>toast := Some \<lparr>message = ''Sample CSV downloaded successfully!'',
                                   toast_kind = Success\<rparr>\<rparr>,
                downloadSampleCSV listType w)))"

section \<open>Entry tables of a subdomain (DomainView)\<close>

definition tableMapping :: "(string \<times> string) list" where
  "tableMapping =
     [(''Target Lists'', ''target_list''),
      (''Call Lists'', ''call_list_entries''),
      (''Formulary Decision-Maker Lists'', ''formulary_decision_maker_entries''),
      (''IDN/Health System Lists'', ''idn_health_system_entries''),
      (''Event Invitation Lists'', ''event_invitation_entries''),
      (''Digital Engagement Lists'', ''digital_engagement_entries''),
      (''High-Value Prescriber Lists'', ''high_value_prescriber_entries''),
      (''Competitor Target Lists'', ''competitor_target_entries'')]"

text \<open>\<open>tableMapping[subdomainName] || null\<close>\<close>

definition getEntryTableName :: "string \<Rightarrow> string option" where
  "getEntryTableName name =
     (case map_of tableMapping name of
        None \<Rightarrow> None
      | Some t \<Rightarrow> if t = [] then None else Some t)"

text \<open>
  The props \<open>DomainView\<close> hands to \<open>InlineAddEntry\<close> for the selected subdomain:
  \<open>tableName={getEntryTableName(selectedSubdomain.subdomain_name) || ''}\<close>, no \<open>listId\<close>.
\<close>

definition domainView_props :: "string \<Rightarrow> string list \<Rightarrow> props" where
  "domainView_props subdomain_name cols =
     \<lparr>columns = cols,
      tableName = (case getEntryTableName subdomain_name of None \<Rightarrow> [] | Some t \<Rightarrow> t),
      listId = None,
      subdomainName = Some subdomain_name\<rparr>"

section \<open>The shared HTTP client (api/axiosClient.ts)\<close>

record axios_config =
  cfg_method :: string
  cfg_url :: string
  cfg_headers :: "(string \<times> string) list option"
  cfg_data :: body

text \<open>
  The request interceptor: \<open>localStorage.getItem('sb_token')\<close> is \<open>null\<close> for a missing key,
  and \<open>token && config.headers\<close> asks for a token that is not the empty string and for a
  headers object.
\<close>

definition request_interceptor :: "(string \<times> string) list \<Rightarrow> axios_config \<Rightarrow> axios_config" where
  "request_interceptor storage config =
     (case map_of storage ''sb_token'' of
        None \<Rightarrow> config
      | Some token \<Rightarrow>
          (case cfg_headers config of
             None \<Rightarrow> config
           | Some hs \<Rightarrow>
               if token = [] then config
               else config\<lparr>cfg_headers :=
                      Some (AList.update ''Authorization'' (''Bearer '' @ token) hs)\<rparr>))"

text \<open>
  A request through the client: the interceptor runs, the URL is put behind the base URL,
  and a response outside 2xx rejects.
\<close>

definition axios_request ::
  "string \<Rightarrow> 'n network \<Rightarrow> axios_config \<Rightarrow> 'n world \<Rightarrow> fetch_result \<times> 'n world"
where
  "axios_request baseURL nw config w =
     (let c = request_interceptor (localStorage w) config in
      case fetch nw
             \<lparr>req_method = cfg_method c,
              req_url = baseURL @ cfg_url c,
              req_headers = (case cfg_headers c of None \<Rightarrow> [] | Some hs \<Rightarrow> hs),
              req_body = cfg_data c\<rparr> w of
        (Rejected e, w') \<Rightarrow> (Rejected e, w')
      | (Resolved r, w') \<Rightarrow>
          if ok r then (Resolved r, w')
          else (Rejected (Error (''Request failed with status code '' @ show_nat (status r))), w'))"

text \<open>\<open>axiosClient.get(`/api/${tableName}`)\<close>, as \<open>DomainView\<close> lists the entries of a table.\<close>

definition list_entries_config :: "string \<Rightarrow> axios_config" where
  "list_entries_config table =
     \<lparr>cfg_method = ''GET'', cfg_url = ''/api/'' @ table, cfg_headers = Some [], cfg_data = NoBody\<rparr>"

section \<open>Sample inputs\<close>

definition two_row_csv :: string where
  "two_row_csv = ''hcp_id,hcp_name'' @ [CHR 0x0A] @ ''HCP1,Dr. A'' @ [CHR 0x0A] @ ''HCP2,Dr. B''"


definition header_only_csv :: string where
  "header_only_csv = ''hcp_id,hcp_name'' @ [CHR 0x0A]"

definition quoted_csv :: string where
  "quoted_csv = [dquote] @ ''id,name'' @ [CHR 0x0A] @ ''X1,Bob'' @ [dquote]"

definition quoted_line :: string where
  "quoted_line = [dquote] @ ''Dr. A'' @ [dquote] @ '', '' @ [dquote] @ ''abc,xyz'' @ [dquote] @ '',plain''"

definition three_row_csv :: string where
  "three_row_csv = ''hcp_id,hcp_name'' @ [CHR 0x0A] @ ''HCP1,Dr. A'' @ [CHR 0x0A]
                     @ ''HCP2,Dr. B'' @ [CHR 0x0A] @ ''HCP3,Dr. C'' @ [CHR 0x0A]"

definition blank_row_csv :: string where
  "blank_row_csv = ''hcp_id,hcp_name'' @ [CHR 0x0A] @ ''HCP1,Dr. A'' @ [CHR 0x0A]
                     @ '' , '' @ [CHR 0x0A] @ ''HCP2,Dr. B'' @ [CHR 0x0A]"

definition created :: response where
  "created = \<lparr>ok = True, status = 201, json = Inr \<lparr>detail = None, items_added = None\<rparr>\<rparr>"

definition internal_error :: response where
  "internal_error =
     \<lparr>ok = False, status = 500,
      json = Inr \<lparr>detail = Some ''Internal Server Error'', items_added = None\<rparr>\<rparr>"

text \<open>
  Backends that count the requests they have seen: one accepts every request, one answers
  request number \<open>k\<close> (from 0) with HTTP 500, one lets request number \<open>k\<close> fail in the
  network, so that \<open>fetch\<close> rejects.
\<close>

definition accepting :: "nat network" where
  "accepting n req = (Resolved created, n + 1)"

definition failing_at :: "nat \<Rightarrow> nat network" where
  "failing_at k n req = (if n = k then Resolved internal_error else Resolved created, n + 1)"

definition dropping_at :: "nat \<Rightarrow> nat network" where
  "dropping_at k n req =
     (if n = k then Rejected (Error ''Failed to fetch'') else Resolved created, n + 1)"

definition fresh_world :: "nat world" where
  "fresh_world = \<lparr>net = 0, exchanges = [], refreshes = 0, localStorage = [], downloads = []\<rparr>"

definition call_list_props :: props where
  "call_list_props = domainView_props ''Call Lists'' [''hcp_id'', ''hcp_name'']"

definition csv_chosen :: "string \<Rightarrow> ui" where
  "csv_chosen text =
     handleFileChange (Some \<lparr>file_name = ''upload.csv'', file_text = Some text\<rparr>)
       (handleCsvAdd initial_ui)"

definition blank_form :: ui where
  "blank_form = handleInputChange ''hcp_name'' ''   '' (handleManualAdd call_list_props initial_ui)"

definition signed_in_world :: "nat world" where
  "signed_in_world = fresh_world\<lparr>localStorage := [(''sb_token'', ''abc123'')]\<rparr>"

definition filled_form :: ui where
  "filled_form = handleInputChange ''hcp_id'' ''HCP1'' (handleManualAdd call_list_props initial_ui)"

section \<open>Properties of the parser\<close>






lemma strip_quotes_pair: "strip_quotes (dquote # s @ [dquote]) = s"
  by (simp add: strip_quotes_def)

lemma strip_quotes_leading: "s = [] \<or> last s \<noteq> dquote \<Longrightarrow> strip_quotes (dquote # s) = s"
  by (auto simp: strip_quotes_def)

lemma strip_quotes_trailing: "s \<noteq> [] \<Longrightarrow> hd s \<noteq> dquote \<Longrightarrow> strip_quotes (s @ [dquote]) = s"
  by (cases s) (auto simp: strip_quotes_def)

lemma strip_quotes_none: "t = [] \<or> (hd t \<noteq> dquote \<and> last t \<noteq> dquote) \<Longrightarrow> strip_quotes t = t"
  by (cases t) (auto simp: strip_quotes_def)

section \<open>Properties of the import loop\<close>

lemma fetch_exchanges:
  "fetch nw req w = (res, w') \<Longrightarrow> exchanges w' = exchanges w @ [(req, res)]"
  by (auto simp: fetch_def split: prod.splits)

lemma fetch_rest:
  "fetch nw req w = (res, w') \<Longrightarrow>
     refreshes w' = refreshes w \<and> localStorage w' = localStorage w \<and> downloads w' = downloads w"
  by (auto simp: fetch_def split: prod.splits)

lemma upload_rows_trace:
  "upload_rows nw table rows (s, e) w = ((s', e'), w') \<Longrightarrow>
   \<exists>new. exchanges w' = exchanges w @ new
     \<and> map fst new = map (\<lambda>r. create_request table (nonEmptyFields r)) (filter submitted rows)
     \<and> s' = s + length (filter (\<lambda>x. \<not> failed (snd x)) new)
     \<and> e' = e + length (filter (\<lambda>r. \<not> submitted r) rows) + length (filter (\<lambda>x. failed (snd x)) new)
     \<and> refreshes w' = refreshes w"
proof (induction rows arbitrary: s e w)
  case Nil
  then show ?case by simp
next
  case (Cons r rows)
  show ?case
  proof (cases "nonEmptyFields r = []")
    case True
    with Cons.prems have "upload_rows nw table rows (s, e + 1) w = ((s', e'), w')" by simp
    moreover from True have "\<not> submitted r" by (simp add: submitted_def)
    ultimately show ?thesis using Cons.IH by fastforce
  next
    case False
    let ?req = "create_request table (nonEmptyFields r)"
    obtain res w1 where f: "fetch nw ?req w = (res, w1)" by (cases "fetch nw ?req w")
    note ex = fetch_exchanges[OF f] and rest = fetch_rest[OF f]
    from False have sr: "submitted r" by (simp add: submitted_def)
    show ?thesis
    proof (cases "failed res")
      case True
      with Cons.prems False f have "upload_rows nw table rows (s, e + 1) w1 = ((s', e'), w')"
        by (auto simp: failed_def split: fetch_result.splits if_splits)
      from Cons.IH[OF this] obtain new where
        "exchanges w' = exchanges w1 @ new"
        "map fst new = map (\<lambda>r. create_request table (nonEmptyFields r)) (filter submitted rows)"
        "s' = s + length (filter (\<lambda>x. \<not> failed (snd x)) new)"
        "e' = e + 1 + length (filter (\<lambda>r. \<not> submitted r) rows) + length (filter (\<lambda>x. failed (snd x)) new)"
        "refreshes w' = refreshes w1" by blast
      with True sr ex rest show ?thesis
        by (intro exI[of _ "(?req, res) # new"]) simp
    next
      case nf: False
      with Cons.prems False f have "upload_rows nw table rows (s + 1, e) w1 = ((s', e'), w')"
        by (auto simp: failed_def split: fetch_result.splits if_splits)
      from Cons.IH[OF this] obtain new where
        "exchanges w' = exchanges w1 @ new"
        "map fst new = map (\<lambda>r. create_request table (nonEmptyFields r)) (filter submitted rows)"
        "s' = s + 1 + length (filter (\<lambda>x. \<not> failed (snd x)) new)"
        "e' = e + length (filter (\<lambda>r. \<not> submitted r) rows) + length (filter (\<lambda>x. failed (snd x)) new)"
        "refreshes w' = refreshes w1" by blast
      with nf sr ex rest show ?thesis
        by (intro exI[of _ "(?req, res) # new"]) simp
    qed
  qed
qed

lemma upload_rows_shift:
  "upload_rows nw table rows (s, e) w = ((s', e'), w') \<Longrightarrow>
   upload_rows nw table rows (s + a, e + b) w = ((s' + a, e' + b), w')"
proof (induction rows arbitrary: s e w)
  case Nil
  then show ?case by simp
next
  case (Cons r rows)
  show ?case
  proof (cases "nonEmptyFields r = []")
    case True
    with Cons.prems have "upload_rows nw table rows (s, e + 1) w = ((s', e'), w')" by simp
    from Cons.IH[OF this] True show ?thesis by simp
  next
    case False
    let ?req = "create_request table (nonEmptyFields r)"
    obtain res w1 where f: "fetch nw ?req w = (res, w1)" by (cases "fetch nw ?req w")
    show ?thesis
    proof (cases "failed res")
      case True
      with Cons.prems False f have "upload_rows nw table rows (s, e + 1) w1 = ((s', e'), w')"
        by (auto simp: failed_def split: fetch_result.splits if_splits)
      from Cons.IH[OF this] True False f show ?thesis
        by (auto simp: failed_def split: fetch_result.splits)
    next
      case nf: False
      with Cons.prems False f have "upload_rows nw table rows (s + 1, e) w1 = ((s', e'), w')"
        by (auto simp: failed_def split: fetch_result.splits if_splits)
      from Cons.IH[OF this] nf False f show ?thesis
        by (auto simp: failed_def split: fetch_result.splits)
    qed
  qed
qed

lemma upload_rows_append:
  "upload_rows nw table (xs @ ys) c w =
     (case upload_rows nw table xs c w of (c', w') \<Rightarrow> upload_rows nw table ys c' w')"
proof (induction xs arbitrary: c w)
  case Nil
  then show ?case by (cases c) simp
next
  case (Cons r xs)
  obtain s e where c: "c = (s, e)" by (cases c)
  show ?case unfolding c
    by (simp add: Cons.IH Let_def split: prod.splits fetch_result.splits)
qed

section \<open>Claims about the parser\<close>



text \<open>
  Claim C7.  A text with fewer than two non-blank lines (an empty file, or a header line
  and nothing else) is rejected with \<open>MalformedFile\<close>; no rows are produced.
\<close>

theorem too_few_lines:
  assumes "file_text f = Some text" and "length (csv_lines text) < 2"
  shows "parseCsvFile f = Inl MalformedFile"
  using assms by (simp add: parseCsvFile_def parseCsvText_def)

theorem too_few_lines_witness:
  "length (csv_lines []) = 0 \<and>
   parseCsvFile \<lparr>file_name = ''empty.csv'', file_text = Some []\<rparr> = Inl MalformedFile \<and>
   length (csv_lines header_only_csv) = 1 \<and>
   parseCsvFile \<lparr>file_name = ''header.csv'', file_text = Some header_only_csv\<rparr> = Inl MalformedFile"
proof -
  have a: "length (csv_lines []) = 0" by code_simp
  have b: "length (csv_lines header_only_csv) = 1" by code_simp
  from a have a2: "length (csv_lines []) < 2" by simp
  from b have b2: "length (csv_lines header_only_csv) < 2" by simp
  show ?thesis
    using a b
      too_few_lines[of "\<lparr>file_name = ''empty.csv'', file_text = Some []\<rparr>" "[]", OF _ a2]
      too_few_lines[of "\<lparr>file_name = ''header.csv'', file_text = Some header_only_csv\<rparr>" header_only_csv, OF _ b2]
    by simp
qed



text \<open>
  Claim C3, as the code has it.  A field is the piece between two commas, trimmed, and then
  without a double quote at its start and without a double quote at its end, each removed
  whether or not the other is there: a surrounding pair goes, an unpaired leading quote
  goes, an unpaired trailing quote goes, and a field with no quote at either end is the
  trimmed piece.  One quote at most is removed at each end.
\<close>

theorem field_quotes:
  assumes "i < length (split_on CHR '','' line)"
    and "t = trim (split_on CHR '','' line ! i)"
  shows "(\<forall>s. t = dquote # s @ [dquote] \<longrightarrow> csv_fields line ! i = s)
       \<and> (\<forall>s. t = dquote # s \<and> (s = [] \<or> last s \<noteq> dquote) \<longrightarrow> csv_fields line ! i = s)
       \<and> (\<forall>s. t = s @ [dquote] \<and> s \<noteq> [] \<and> hd s \<noteq> dquote \<longrightarrow> csv_fields line ! i = s)
       \<and> (t = [] \<or> (hd t \<noteq> dquote \<and> last t \<noteq> dquote) \<longrightarrow> csv_fields line ! i = t)"
proof -
  from assms have f: "csv_fields line ! i = strip_quotes t"
    by (simp add: csv_fields_def)
  show ?thesis
    unfolding f
    using strip_quotes_pair strip_quotes_leading strip_quotes_trailing strip_quotes_none
    by blast
qed

theorem field_quotes_witness:
  "split_on CHR '','' quoted_line = [[dquote] @ ''Dr. A'' @ [dquote], '' '' @ [dquote] @ ''abc'', ''xyz'' @ [dquote], ''plain'']
   \<and> csv_fields quoted_line ! 0 = ''Dr. A''
   \<and> csv_fields quoted_line ! 1 = ''abc''
   \<and> csv_fields quoted_line ! 2 = ''xyz''
   \<and> csv_fields quoted_line ! 3 = ''plain''"
proof -
  have sp: "split_on CHR '','' quoted_line = [[dquote] @ ''Dr. A'' @ [dquote], '' '' @ [dquote] @ ''abc'', ''xyz'' @ [dquote], ''plain'']"
    by code_simp
  have i0: "0 < length (split_on CHR '','' quoted_line)"
    and i1: "1 < length (split_on CHR '','' quoted_line)"
    and i2: "2 < length (split_on CHR '','' quoted_line)"
    and i3: "3 < length (split_on CHR '','' quoted_line)"
    unfolding sp by simp_all
  have t0: "dquote # ''Dr. A'' @ [dquote] = trim (split_on CHR '','' quoted_line ! 0)" by code_simp
  have t1: "dquote # ''abc'' = trim (split_on CHR '','' quoted_line ! 1)" by code_simp
  have t2: "''xyz'' @ [dquote] = trim (split_on CHR '','' quoted_line ! 2)" by code_simp
  have t3: "''plain'' = trim (split_on CHR '','' quoted_line ! 3)" by code_simp
  have d: "CHR ''c'' \<noteq> dquote" "CHR ''x'' \<noteq> dquote" "CHR ''p'' \<noteq> dquote" "CHR ''n'' \<noteq> dquote"
    by (simp_all add: dquote_def)
  from field_quotes[OF i0 t0] have a: "csv_fields quoted_line ! 0 = ''Dr. A''" by blast
  from field_quotes[OF i1 t1] d have b: "csv_fields quoted_line ! 1 = ''abc''" by simp
  from field_quotes[OF i2 t2] d have c: "csv_fields quoted_line ! 2 = ''xyz''" by simp
  from field_quotes[OF i3 t3] d have e: "csv_fields quoted_line ! 3 = ''plain''" by simp
  show ?thesis by (intro conjI sp a b c e)
qed

text \<open>
  Claim C3, as the spec states it, fails: it has an unpaired leading or trailing quote
  left intact.  The header field \<open>"id\<close> becomes \<open>id\<close> and the data field \<open>Bob"\<close>
  becomes \<open>Bob\<close>.
\<close>

theorem unpaired_quote_counterexample:
  "csv_fields (dquote # ''id,name'') = [''id'', ''name'']
   \<and> csv_fields (dquote # ''id,name'') \<noteq> [dquote # ''id'', ''name'']
   \<and> csv_fields (''X1,Bob'' @ [dquote]) = [''X1'', ''Bob'']
   \<and> csv_fields (''X1,Bob'' @ [dquote]) \<noteq> [''X1'', ''Bob'' @ [dquote]]
   \<and> parseCsvText quoted_csv = Inr [[(''id'', ''X1''), (''name'', ''Bob'')]]"
  by code_simp

section \<open>Claims about the import orchestrator\<close>

lemma show_nat_1: "show_nat (Suc 0) = ''1''"
  by code_simp

lemma all_blank_nonEmptyFields:
  "(\<forall>(k, v) \<in> set fd. trim v = []) \<Longrightarrow> nonEmptyFields fd = []"
  by (auto simp: nonEmptyFields_def filter_empty_conv)

lemma no_scope_body:
  assumes "listId p = None \<or> listId p = Some 0" and "parseCsvFile f = Inr rows"
    and "upload_rows nw (tableName p) rows (0, 0) w = ((s, e), w1)"
  shows "csv_upload_body nw p f w = (Inr (tally_toast s e), w1)"
  using assms by (auto simp: csv_upload_body_def)

lemma handleCsvUpload_done:
  assumes "selectedFile st = Some f" and "csv_upload_body nw p f w = (Inr t, w1)"
  shows "handleCsvUpload nw p st w =
           (st\<lparr>toast := Some t, isAdding := False, addMode := None,
               selectedFile := None, isUploading := False\<rparr>,
            w1\<lparr>refreshes := refreshes w1 + 1\<rparr>)"
  using assms by (simp add: handleCsvUpload_def)

lemma filter_submitted_all: "list_all submitted rows \<Longrightarrow> filter submitted rows = rows"
  by (simp add: list_all_iff)

lemma filter_unsubmitted_all: "list_all submitted rows \<Longrightarrow> filter (\<lambda>r. \<not> submitted r) rows = []"
  by (simp add: list_all_iff filter_empty_conv)

lemma upload_rows_skip:
  assumes "\<not> submitted r"
    and "upload_rows nw table (rows1 @ rows2) (0, 0) w = ((s, e), w1)"
  shows "upload_rows nw table (rows1 @ r # rows2) (0, 0) w = ((s, e + 1), w1)"
proof -
  obtain s1 e1 wa where a: "upload_rows nw table rows1 (0, 0) w = ((s1, e1), wa)"
    by (metis surj_pair)
  with assms(2) have b: "upload_rows nw table rows2 (s1, e1) wa = ((s, e), w1)"
    by (simp add: upload_rows_append)
  from upload_rows_shift[OF b, of 0 1] have "upload_rows nw table rows2 (s1, e1 + 1) wa = ((s, e + 1), w1)"
    by simp
  with assms(1) have "upload_rows nw table (r # rows2) (s1, e1) wa = ((s, e + 1), w1)"
    by (simp add: submitted_def)
  with a show ?thesis by (simp add: upload_rows_append)
qed

lemma no_scope_call_list: "listId call_list_props = None \<or> listId call_list_props = Some 0"
  by (simp add: call_list_props_def domainView_props_def)

lemma csv_chosen_file:
  "selectedFile (csv_chosen text) = Some \<lparr>file_name = ''upload.csv'', file_text = Some text\<rparr>"
  by code_simp

text \<open>
  Claim C6.  A manual save whose record has no field left once the fields that are blank
  after trimming are removed ends with the warning toast and nothing else: the world is
  what it was, so no request was issued, and the form is still open in its mode with the
  record as it was.
\<close>

theorem empty_record_rejected:
  assumes "\<forall>(k, v) \<in> set (formData st). trim v = []"
  shows "handleSave nw p st w =
           (st\<lparr>toast := Some \<lparr>message = ''Please fill in at least one field'',
                                toast_kind = Warning\<rparr>,
               isSaving := False\<rparr>, w)
       \<and> exchanges (snd (handleSave nw p st w)) = exchanges w
       \<and> isAdding (fst (handleSave nw p st w)) = isAdding st
       \<and> addMode (fst (handleSave nw p st w)) = addMode st
       \<and> formData (fst (handleSave nw p st w)) = formData st"
  using all_blank_nonEmptyFields[OF assms] by (simp add: handleSave_def)

theorem empty_record_rejected_witness:
  "formData blank_form = [(''hcp_id'', []), (''hcp_name'', ''   '')]
   \<and> handleSave accepting call_list_props blank_form fresh_world =
         (blank_form\<lparr>toast := Some \<lparr>message = ''Please fill in at least one field'',
                                      toast_kind = Warning\<rparr>,
                     isSaving := False\<rparr>, fresh_world)
   \<and> exchanges (snd (handleSave accepting call_list_props blank_form fresh_world)) = []
   \<and> isAdding (fst (handleSave accepting call_list_props blank_form fresh_world)) = True
   \<and> addMode (fst (handleSave accepting call_list_props blank_form fresh_world)) = Some Manual"
proof -
  have fd: "formData blank_form = [(''hcp_id'', []), (''hcp_name'', ''   '')]" by code_simp
  have blank: "\<forall>(k, v) \<in> set (formData blank_form). trim v = []"
    unfolding fd by (simp add: trim_def is_ws_def)
  have a: "isAdding blank_form = True" "addMode blank_form = Some Manual" "exchanges fresh_world = []"
    by code_simp+
  from empty_record_rejected[OF blank, of accepting call_list_props fresh_world] fd a
  show ?thesis by simp
qed

text \<open>
  Claim C2.  In the per-row import (no list scope), when every row of the batch is
  submitted and exactly one of the exchanges of the run failed (the server answered
  outside 2xx, or the request rejected and the error was caught), the loop ends with
  \<open>N - 1\<close> successes and 1 failure; one request was issued for every row, in the order of
  the rows, so the loop went on past the failure; and the upload completes with the
  warning toast that reports both counts, the form closed and the caller refreshed.
\<close>

theorem one_failed_row:
  assumes sel: "selectedFile st = Some f"
    and scope: "listId p = None \<or> listId p = Some 0"
    and parsed: "parseCsvFile f = Inr rows"
    and all_sub: "list_all submitted rows"
    and run: "handleCsvUpload nw p st w = (st', w')"
    and one: "length (filter (\<lambda>x. failed (snd x)) (drop (length (exchanges w)) (exchanges w'))) = 1"
  shows "(\<exists>w1. upload_rows nw (tableName p) rows (0, 0) w = ((length rows - 1, 1), w1)
              \<and> w' = w1\<lparr>refreshes := refreshes w1 + 1\<rparr>)
       \<and> map fst (drop (length (exchanges w)) (exchanges w'))
            = map (\<lambda>r. create_request (tableName p) (nonEmptyFields r)) rows
       \<and> toast st' = Some \<lparr>message = ''Uploaded '' @ show_nat (length rows - 1)
                                       @ '' entries successfully. 1 entries failed.'',
                            toast_kind = Warning\<rparr>
       \<and> isAdding st' = False \<and> addMode st' = None \<and> selectedFile st' = None
       \<and> refreshes w' = refreshes w + 1"
proof -
  obtain s e w1 where u: "upload_rows nw (tableName p) rows (0, 0) w = ((s, e), w1)"
    by (metis surj_pair)
  from handleCsvUpload_done[OF sel no_scope_body[OF scope parsed u]] run
  have st': "st' = st\<lparr>toast := Some (tally_toast s e), isAdding := False, addMode := None,
                      selectedFile := None, isUploading := False\<rparr>"
    and w': "w' = w1\<lparr>refreshes := refreshes w1 + 1\<rparr>"
    by simp_all
  from upload_rows_trace[OF u] obtain new where
    ex: "exchanges w1 = exchanges w @ new"
    and reqs: "map fst new = map (\<lambda>r. create_request (tableName p) (nonEmptyFields r)) (filter submitted rows)"
    and s: "s = 0 + length (filter (\<lambda>x. \<not> failed (snd x)) new)"
    and e: "e = 0 + length (filter (\<lambda>r. \<not> submitted r) rows) + length (filter (\<lambda>x. failed (snd x)) new)"
    and rf: "refreshes w1 = refreshes w"
    by blast
  from ex w' have new: "drop (length (exchanges w)) (exchanges w') = new" by simp
  from reqs have reqs': "map fst new = map (\<lambda>r. create_request (tableName p) (nonEmptyFields r)) rows"
    by (simp only: filter_submitted_all[OF all_sub])
  then have len: "length new = length rows" by (metis length_map)
  from one new have f1: "length (filter (\<lambda>x. failed (snd x)) new) = 1" by simp
  have "length (filter (\<lambda>x. failed (snd x)) new) + length (filter (\<lambda>x. \<not> failed (snd x)) new) = length new"
    by (rule sum_length_filter_compl)
  with f1 len s have s_eq: "s = length rows - 1" by simp
  from e f1 have e_eq: "e = 1" by (simp add: filter_unsubmitted_all[OF all_sub])
  have t: "tally_toast (length rows - 1) 1 =
             \<lparr>message = ''Uploaded '' @ show_nat (length rows - 1) @ '' entries successfully. 1 entries failed.'',
              toast_kind = Warning\<rparr>"
    by (simp add: tally_toast_def show_nat_1)
  from u s_eq e_eq w' have a: "\<exists>w1. upload_rows nw (tableName p) rows (0, 0) w = ((length rows - 1, 1), w1)
              \<and> w' = w1\<lparr>refreshes := refreshes w1 + 1\<rparr>" by blast
  from st' s_eq e_eq t have b: "toast st' = Some \<lparr>message = ''Uploaded '' @ show_nat (length rows - 1)
                                       @ '' entries successfully. 1 entries failed.'',
                            toast_kind = Warning\<rparr>" by simp
  from st' have c: "isAdding st' = False \<and> addMode st' = None \<and> selectedFile st' = None" by simp
  from w' rf have d: "refreshes w' = refreshes w + 1" by simp
  from a new reqs' b c d show ?thesis by simp
qed

theorem one_failed_row_witness:
  "toast (fst (handleCsvUpload (failing_at 1) call_list_props (csv_chosen three_row_csv) fresh_world))
     = Some \<lparr>message = ''Uploaded 2 entries successfully. 1 entries failed.'', toast_kind = Warning\<rparr>
   \<and> length (exchanges (snd (handleCsvUpload (failing_at 1) call_list_props (csv_chosen three_row_csv) fresh_world))) = 3
   \<and> toast (fst (handleCsvUpload (dropping_at 1) call_list_props (csv_chosen three_row_csv) fresh_world))
     = Some \<lparr>message = ''Uploaded 2 entries successfully. 1 entries failed.'', toast_kind = Warning\<rparr>
   \<and> length (exchanges (snd (handleCsvUpload (dropping_at 1) call_list_props (csv_chosen three_row_csv) fresh_world))) = 3"
proof -
  let ?f = "\<lparr>file_name = ''upload.csv'', file_text = Some three_row_csv\<rparr>"
  let ?rows = "[[(''hcp_id'', ''HCP1''), (''hcp_name'', ''Dr. A'')],
                [(''hcp_id'', ''HCP2''), (''hcp_name'', ''Dr. B'')],
                [(''hcp_id'', ''HCP3''), (''hcp_name'', ''Dr. C'')]]"
  let ?run1 = "handleCsvUpload (failing_at 1) call_list_props (csv_chosen three_row_csv) fresh_world"
  let ?run2 = "handleCsvUpload (dropping_at 1) call_list_props (csv_chosen three_row_csv) fresh_world"
  have parsed: "parseCsvFile ?f = Inr ?rows" by code_simp
  have sub: "list_all submitted ?rows" by code_simp
  have n: "show_nat (length ?rows - 1) = ''2''" by code_simp
  have e0: "exchanges fresh_world = []" by code_simp
  have run1: "?run1 = (fst ?run1, snd ?run1)" by simp
  have one1: "length (filter (\<lambda>x. failed (snd x))
                 (drop (length (exchanges fresh_world)) (exchanges (snd ?run1)))) = 1"
    by code_simp
  have run2: "?run2 = (fst ?run2, snd ?run2)" by simp
  have one2: "length (filter (\<lambda>x. failed (snd x))
                 (drop (length (exchanges fresh_world)) (exchanges (snd ?run2)))) = 1"
    by code_simp
  note r1 = one_failed_row[OF csv_chosen_file no_scope_call_list parsed sub run1 one1, unfolded n]
  note r2 = one_failed_row[OF csv_chosen_file no_scope_call_list parsed sub run2 one2, unfolded n]
  from r1 have t1: "toast (fst ?run1)
      = Some \<lparr>message = ''Uploaded 2 entries successfully. 1 entries failed.'', toast_kind = Warning\<rparr>"
    by simp
  from r1 have m1: "map fst (drop (length (exchanges fresh_world)) (exchanges (snd ?run1)))
      = map (\<lambda>r. create_request (tableName call_list_props) (nonEmptyFields r)) ?rows"
    by (elim conjE) assumption
  from arg_cong[OF m1, of length] have l1: "length (exchanges (snd ?run1)) = 3"
    by (simp add: e0)
  from r2 have t2: "toast (fst ?run2)
      = Some \<lparr>message = ''Uploaded 2 entries successfully. 1 entries failed.'', toast_kind = Warning\<rparr>"
    by simp
  from r2 have m2: "map fst (drop (length (exchanges fresh_world)) (exchanges (snd ?run2)))
      = map (\<lambda>r. create_request (tableName call_list_props) (nonEmptyFields r)) ?rows"
    by (elim conjE) assumption
  from arg_cong[OF m2, of length] have l2: "length (exchanges (snd ?run2)) = 3"
    by (simp add: e0)
  show ?thesis by (intro conjI t1 l1 t2 l2)
qed

text \<open>
  Claim C10.  In the per-row import, a row \<open>r\<close> with no field left after the blank ones
  are removed changes nothing in the traffic: the world after the run is the world of the
  run without \<open>r\<close>, and no request carries an empty record.  The row adds one to the
  failure count, and the completion toast is the warning that reports that count.
\<close>

theorem empty_row_counted:
  assumes sel: "selectedFile st = Some f"
    and scope: "listId p = None \<or> listId p = Some 0"
    and parsed: "parseCsvFile f = Inr (rows1 @ r # rows2)"
    and empty: "\<not> submitted r"
    and rest: "upload_rows nw (tableName p) (rows1 @ rows2) (0, 0) w = ((s, e), w1)"
  shows "upload_rows nw (tableName p) (rows1 @ r # rows2) (0, 0) w = ((s, e + 1), w1)
       \<and> JsonBody [] \<notin> req_body ` fst ` set (drop (length (exchanges w)) (exchanges w1))
       \<and> handleCsvUpload nw p st w =
           (st\<lparr>toast := Some \<lparr>message = ''Uploaded '' @ show_nat s @ '' entries successfully. ''
                                         @ show_nat (e + 1) @ '' entries failed.'',
                                toast_kind = Warning\<rparr>,
               isAdding := False, addMode := None, selectedFile := None, isUploading := False\<rparr>,
            w1\<lparr>refreshes := refreshes w1 + 1\<rparr>)"
proof -
  note u = upload_rows_skip[OF empty rest]
  have t: "tally_toast s (e + 1) =
             \<lparr>message = ''Uploaded '' @ show_nat s @ '' entries successfully. ''
                          @ show_nat (e + 1) @ '' entries failed.'',
              toast_kind = Warning\<rparr>"
    by (simp add: tally_toast_def)
  from handleCsvUpload_done[OF sel no_scope_body[OF scope parsed u]]
  have h: "handleCsvUpload nw p st w =
           (st\<lparr>toast := Some \<lparr>message = ''Uploaded '' @ show_nat s @ '' entries successfully. ''
                                         @ show_nat (e + 1) @ '' entries failed.'',
                                toast_kind = Warning\<rparr>,
               isAdding := False, addMode := None, selectedFile := None, isUploading := False\<rparr>,
            w1\<lparr>refreshes := refreshes w1 + 1\<rparr>)"
    unfolding t .
  from upload_rows_trace[OF rest] obtain new where
    ex: "exchanges w1 = exchanges w @ new"
    and reqs: "map fst new = map (\<lambda>r. create_request (tableName p) (nonEmptyFields r)) (filter submitted (rows1 @ rows2))"
    by blast
  have "JsonBody [] \<notin> req_body ` set (map fst new)"
    unfolding reqs by (auto simp: create_request_def submitted_def)
  with ex have n: "JsonBody [] \<notin> req_body ` fst ` set (drop (length (exchanges w)) (exchanges w1))"
    by simp
  from u n h show ?thesis by (intro conjI)
qed

theorem empty_row_counted_witness:
  "parseCsvFile \<lparr>file_name = ''upload.csv'', file_text = Some blank_row_csv\<rparr>
     = Inr ([[(''hcp_id'', ''HCP1''), (''hcp_name'', ''Dr. A'')]]
            @ [(''hcp_id'', []), (''hcp_name'', [])]
            # [[(''hcp_id'', ''HCP2''), (''hcp_name'', ''Dr. B'')]])
   \<and> toast (fst (handleCsvUpload accepting call_list_props (csv_chosen blank_row_csv) fresh_world))
     = Some \<lparr>message = ''Uploaded 2 entries successfully. 1 entries failed.'', toast_kind = Warning\<rparr>
   \<and> map fst (exchanges (snd (handleCsvUpload accepting call_list_props (csv_chosen blank_row_csv) fresh_world)))
     = [create_request ''call_list_entries'' [(''hcp_id'', ''HCP1''), (''hcp_name'', ''Dr. A'')],
        create_request ''call_list_entries'' [(''hcp_id'', ''HCP2''), (''hcp_name'', ''Dr. B'')]]"
proof -
  let ?f = "\<lparr>file_name = ''upload.csv'', file_text = Some blank_row_csv\<rparr>"
  let ?r1 = "[[(''hcp_id'', ''HCP1''), (''hcp_name'', ''Dr. A'')]]"
  let ?r = "[(''hcp_id'', []), (''hcp_name'', [])]"
  let ?r2 = "[[(''hcp_id'', ''HCP2''), (''hcp_name'', ''Dr. B'')]]"
  let ?w1 = "snd (upload_rows accepting (tableName call_list_props) (?r1 @ ?r2) (0, 0) fresh_world)"
  have parsed: "parseCsvFile ?f = Inr (?r1 @ ?r # ?r2)" by code_simp
  have empty: "\<not> submitted ?r" by code_simp
  have rest: "upload_rows accepting (tableName call_list_props) (?r1 @ ?r2) (0, 0) fresh_world
                = ((2, 0), ?w1)"
    by code_simp
  have n: "show_nat 2 = ''2''" "show_nat (0 + 1) = ''1''" by code_simp+
  have ex: "map fst (exchanges ?w1)
     = [create_request ''call_list_entries'' [(''hcp_id'', ''HCP1''), (''hcp_name'', ''Dr. A'')],
        create_request ''call_list_entries'' [(''hcp_id'', ''HCP2''), (''hcp_name'', ''Dr. B'')]]"
    by code_simp
  note h = empty_row_counted[OF csv_chosen_file no_scope_call_list parsed empty rest, unfolded n]
  from h have hh: "handleCsvUpload accepting call_list_props (csv_chosen blank_row_csv) fresh_world =
      ((csv_chosen blank_row_csv)\<lparr>toast := Some \<lparr>message = ''Uploaded '' @ ''2'' @ '' entries successfully. ''
                                         @ ''1'' @ '' entries failed.'',
                                toast_kind = Warning\<rparr>,
               isAdding := False, addMode := None, selectedFile := None, isUploading := False\<rparr>,
            ?w1\<lparr>refreshes := refreshes ?w1 + 1\<rparr>)"
    by (elim conjE)
  have t: "toast (fst (handleCsvUpload accepting call_list_props (csv_chosen blank_row_csv) fresh_world))
     = Some \<lparr>message = ''Uploaded 2 entries successfully. 1 entries failed.'', toast_kind = Warning\<rparr>"
    unfolding hh by simp
  have m: "map fst (exchanges (snd (handleCsvUpload accepting call_list_props (csv_chosen blank_row_csv) fresh_world)))
     = [create_request ''call_list_entries'' [(''hcp_id'', ''HCP1''), (''hcp_name'', ''Dr. A'')],
        create_request ''call_list_entries'' [(''hcp_id'', ''HCP2''), (''hcp_name'', ''Dr. B'')]]"
    unfolding hh using ex by simp
  show ?thesis by (intro conjI parsed t m)
qed

section \<open>Claims about the template engine\<close>

lemma downloadSampleCSV_known:
  "map_of CSV_TEMPLATES listType = Some t \<Longrightarrow>
     downloads (downloadSampleCSV listType w)
       = downloads w @ [(filename t, arrayToCSV (headers t) (sampleData t))]"
  by (simp add: downloadSampleCSV_def downloadCSV_def)

text \<open>
  Claim C9.  For a list type of the catalog, downloading the sample twice saves the same
  file name and the same text twice, and the text saved does not depend on the world the
  download starts from.  The first line of the ``Call Lists'' sample is its five-column
  header \<open>hcp_id,hcp_name,call_date,sales_rep,status\<close>.
\<close>

theorem sample_rendering:
  assumes "map_of CSV_TEMPLATES listType = Some t"
  shows "downloads (downloadSampleCSV listType (downloadSampleCSV listType w))
           = downloads w @ [(filename t, arrayToCSV (headers t) (sampleData t)),
                            (filename t, arrayToCSV (headers t) (sampleData t))]
       \<and> last (downloads (downloadSampleCSV listType w1))
           = last (downloads (downloadSampleCSV listType w2))
       \<and> map_of CSV_TEMPLATES ''Call Lists'' = Some call_lists_template
       \<and> hd (split_on (CHR 0x0A)
                (arrayToCSV (headers call_lists_template) (sampleData call_lists_template)))
           = ''hcp_id,hcp_name,call_date,sales_rep,status''
       \<and> length (headers call_lists_template) = 5"
proof -
  have a: "downloads (downloadSampleCSV listType (downloadSampleCSV listType w))
           = downloads w @ [(filename t, arrayToCSV (headers t) (sampleData t)),
                            (filename t, arrayToCSV (headers t) (sampleData t))]"
    by (simp add: downloadSampleCSV_known[OF assms])
  have b: "last (downloads (downloadSampleCSV listType w1))
           = last (downloads (downloadSampleCSV listType w2))"
    by (simp add: downloadSampleCSV_known[OF assms])
  have c: "map_of CSV_TEMPLATES ''Call Lists'' = Some call_lists_template" by code_simp
  have d: "hd (split_on (CHR 0x0A)
                (arrayToCSV (headers call_lists_template) (sampleData call_lists_template)))
           = ''hcp_id,hcp_name,call_date,sales_rep,status''"
    by code_simp
  have e: "length (headers call_lists_template) = 5" by code_simp
  show ?thesis by (intro conjI a b c d e)
qed

theorem sample_rendering_witness:
  "map_of CSV_TEMPLATES ''Call Lists'' = Some call_lists_template
   \<and> map fst (downloads (downloadSampleCSV ''Call Lists'' (downloadSampleCSV ''Call Lists'' fresh_world)))
       = [''call_lists_sample.csv'', ''call_lists_sample.csv'']
   \<and> map (\<lambda>d. hd (split_on (CHR 0x0A) (snd d)))
         (downloads (downloadSampleCSV ''Call Lists'' (downloadSampleCSV ''Call Lists'' fresh_world)))
       = [''hcp_id,hcp_name,call_date,sales_rep,status'', ''hcp_id,hcp_name,call_date,sales_rep,status'']"
proof -
  have c: "map_of CSV_TEMPLATES ''Call Lists'' = Some call_lists_template" by code_simp
  have f: "filename call_lists_template = ''call_lists_sample.csv''" by code_simp
  have d0: "downloads fresh_world = []" by code_simp
  note r = sample_rendering[OF c, of fresh_world fresh_world fresh_world, unfolded f d0]
  from r have two: "downloads (downloadSampleCSV ''Call Lists'' (downloadSampleCSV ''Call Lists'' fresh_world))
      = [] @ [(''call_lists_sample.csv'', arrayToCSV (headers call_lists_template) (sampleData call_lists_template)),
              (''call_lists_sample.csv'', arrayToCSV (headers call_lists_template) (sampleData call_lists_template))]"
    by (elim conjE) assumption
  from r have first: "hd (split_on (CHR 0x0A)
                (arrayToCSV (headers call_lists_template) (sampleData call_lists_template)))
           = ''hcp_id,hcp_name,call_date,sales_rep,status''"
    by (elim conjE) assumption
  show ?thesis unfolding two using c first by simp
qed

section \<open>Claims about table names and authorisation\<close>

text \<open>The requests a handler issues, whatever the backend answers.\<close>

lemma handleSave_requests:
  "map fst (exchanges (snd (handleSave nw p st w)))
     = map fst (exchanges w)
       @ (if nonEmptyFields (formData st) = [] then []
          else [create_request (tableName p) (nonEmptyFields (formData st))])"
  by (auto simp: handleSave_def fetch_def Let_def
           split: prod.splits fetch_result.splits sum.splits js_error.splits)

lemma per_row_requests:
  assumes "selectedFile st = Some f" and "listId p = None \<or> listId p = Some 0"
    and "parseCsvFile f = Inr rows"
  shows "map fst (exchanges (snd (handleCsvUpload nw p st w)))
     = map fst (exchanges w)
       @ map (\<lambda>r. create_request (tableName p) (nonEmptyFields r)) (filter submitted rows)"
proof -
  obtain s e w1 where u: "upload_rows nw (tableName p) rows (0, 0) w = ((s, e), w1)"
    by (metis surj_pair)
  from upload_rows_trace[OF u] obtain new where
    "exchanges w1 = exchanges w @ new"
    "map fst new = map (\<lambda>r. create_request (tableName p) (nonEmptyFields r)) (filter submitted rows)"
    by blast
  then show ?thesis
    by (simp add: handleCsvUpload_done[OF assms(1) no_scope_body[OF assms(2,3) u]])
qed

lemma list_scoped_requests:
  assumes "selectedFile st = Some f" and "listId p = Some lid" and "lid \<noteq> 0"
  shows "map fst (exchanges (snd (handleCsvUpload nw p st w)))
     = map fst (exchanges w) @ [upload_request lid f]"
  using assms
  by (auto simp: handleCsvUpload_def csv_upload_body_def fetch_def
           split: prod.splits fetch_result.splits sum.splits js_error.splits)

lemma axios_requests:
  "map fst (exchanges (snd (axios_request baseURL nw config w)))
     = map fst (exchanges w)
       @ [\<lparr>req_method = cfg_method (request_interceptor (localStorage w) config),
           req_url = baseURL @ cfg_url (request_interceptor (localStorage w) config),
           req_headers = (case cfg_headers (request_interceptor (localStorage w) config) of
                            None \<Rightarrow> [] | Some hs \<Rightarrow> hs),
           req_body = cfg_data (request_interceptor (localStorage w) config)\<rparr>]"
  by (auto simp: axios_request_def fetch_def Let_def
           split: prod.splits fetch_result.splits)

lemma unknown_subdomain: "name \<notin> fst ` set tableMapping \<Longrightarrow> getEntryTableName name = None"
proof -
  assume "name \<notin> fst ` set tableMapping"
  then have "map_of tableMapping name = None" by (simp add: map_of_eq_None_iff)
  then show ?thesis by (simp add: getEntryTableName_def)
qed

lemma interceptor_attaches:
  assumes "map_of storage ''sb_token'' = Some token" and "token \<noteq> []"
    and "cfg_headers config = Some hs"
  shows "\<exists>hs'. cfg_headers (request_interceptor storage config) = Some hs'
              \<and> map_of hs' ''Authorization'' = Some (''Bearer '' @ token)"
  using assms by (simp add: request_interceptor_def update_conv')

text \<open>
  Claim C4: for a subdomain name that the lookup does not know, the import refuses and no
  create request is issued.  The lookup does answer \<open>null\<close> (lemma \<open>unknown_subdomain\<close>),
  but \<open>DomainView\<close> turns that into the table name \<open>''\<close> and the import goes on: for the
  subdomain ``KOL Lists'' a two-row CSV upload posts both rows to
  \<open>http://localhost:8000/api/\<close>, whatever the backend answers.
\<close>

theorem unknown_subdomain_upload:
  "getEntryTableName ''KOL Lists'' = None
   \<and> tableName (domainView_props ''KOL Lists'' cols) = []
   \<and> map (\<lambda>x. (req_method (fst x), req_url (fst x), req_body (fst x)))
        (exchanges (snd (handleCsvUpload nw (domainView_props ''KOL Lists'' cols)
                           (csv_chosen two_row_csv) fresh_world)))
       = [(''POST'', ''http://localhost:8000/api/'',
             JsonBody [(''hcp_id'', ''HCP1''), (''hcp_name'', ''Dr. A'')]),
          (''POST'', ''http://localhost:8000/api/'',
             JsonBody [(''hcp_id'', ''HCP2''), (''hcp_name'', ''Dr. B'')])]"
proof -
  let ?p = "domainView_props ''KOL Lists'' cols"
  let ?f = "\<lparr>file_name = ''upload.csv'', file_text = Some two_row_csv\<rparr>"
  let ?rows = "[[(''hcp_id'', ''HCP1''), (''hcp_name'', ''Dr. A'')],
                [(''hcp_id'', ''HCP2''), (''hcp_name'', ''Dr. B'')]]"
  have g: "getEntryTableName ''KOL Lists'' = None" by code_simp
  then have t: "tableName ?p = []" and sc: "listId ?p = None \<or> listId ?p = Some 0"
    by (simp_all add: domainView_props_def)
  have parsed: "parseCsvFile ?f = Inr ?rows" by code_simp
  have sub: "filter submitted ?rows = ?rows" by code_simp
  have e0: "exchanges fresh_world = []" by (simp add: fresh_world_def)
  have "map fst (exchanges (snd (handleCsvUpload nw ?p (csv_chosen two_row_csv) fresh_world)))
          = map (\<lambda>r. create_request [] (nonEmptyFields r)) ?rows"
    using per_row_requests[OF csv_chosen_file sc parsed, of nw fresh_world]
    unfolding sub t e0 by simp
  also have "\<dots> = [create_request [] [(''hcp_id'', ''HCP1''), (''hcp_name'', ''Dr. A'')],
                     create_request [] [(''hcp_id'', ''HCP2''), (''hcp_name'', ''Dr. B'')]]"
    by code_simp
  finally have m: "map fst (exchanges (snd (handleCsvUpload nw ?p (csv_chosen two_row_csv) fresh_world)))
          = [create_request [] [(''hcp_id'', ''HCP1''), (''hcp_name'', ''Dr. A'')],
             create_request [] [(''hcp_id'', ''HCP2''), (''hcp_name'', ''Dr. B'')]]" .
  have "map (\<lambda>x. (req_method (fst x), req_url (fst x), req_body (fst x)))
          (exchanges (snd (handleCsvUpload nw ?p (csv_chosen two_row_csv) fresh_world)))
        = map (\<lambda>r. (req_method r, req_url r, req_body r))
            (map fst (exchanges (snd (handleCsvUpload nw ?p (csv_chosen two_row_csv) fresh_world))))"
    by (simp add: comp_def)
  also have "\<dots> = [(''POST'', ''http://localhost:8000/api/'',
             JsonBody [(''hcp_id'', ''HCP1''), (''hcp_name'', ''Dr. A'')]),
          (''POST'', ''http://localhost:8000/api/'',
             JsonBody [(''hcp_id'', ''HCP2''), (''hcp_name'', ''Dr. B'')])]"
    unfolding m by (simp add: create_request_def)
  finally show ?thesis using g t by simp
qed

text \<open>
  Claim C5: a bearer token in local storage is attached to every backend request.  With
  the token \<open>abc123\<close> stored, the request of the manual save, the requests of the per-row
  import and the request of the list-scoped upload carry no \<open>Authorization\<close> header; the
  request that lists the entries of the same table through the shared client does carry
  \<open>Bearer abc123\<close>.  This holds for every backend.
\<close>

theorem fetch_without_token:
  "map_of (localStorage signed_in_world) ''sb_token'' = Some ''abc123''
   \<and> map (\<lambda>r. (req_url r, map_of (req_headers r) ''Authorization''))
        (map fst (exchanges (snd (handleSave nw call_list_props filled_form signed_in_world))))
       = [(''http://localhost:8000/api/call_list_entries'', None)]
   \<and> map (\<lambda>r. (req_url r, map_of (req_headers r) ''Authorization''))
        (map fst (exchanges (snd (handleCsvUpload nw call_list_props
                           (csv_chosen two_row_csv) signed_in_world))))
       = [(''http://localhost:8000/api/call_list_entries'', None),
          (''http://localhost:8000/api/call_list_entries'', None)]
   \<and> map (\<lambda>r. (req_url r, map_of (req_headers r) ''Authorization''))
        (map fst (exchanges (snd (handleCsvUpload nw (call_list_props\<lparr>listId := Some 7\<rparr>)
                           (csv_chosen two_row_csv) signed_in_world))))
       = [(''http://localhost:8000/api/lists/7/upload-csv'', None)]
   \<and> map (\<lambda>r. (req_url r, map_of (req_headers r) ''Authorization''))
        (map fst (exchanges (snd (axios_request ''http://localhost:8000'' nw
                           (list_entries_config ''call_list_entries'') signed_in_world))))
       = [(''http://localhost:8000/api/call_list_entries'', Some ''Bearer abc123'')]"
proof -
  let ?f = "\<lparr>file_name = ''upload.csv'', file_text = Some two_row_csv\<rparr>"
  let ?rows = "[[(''hcp_id'', ''HCP1''), (''hcp_name'', ''Dr. A'')],
                [(''hcp_id'', ''HCP2''), (''hcp_name'', ''Dr. B'')]]"
  let ?h = "\<lambda>r. (req_url r, map_of (req_headers r) ''Authorization'')"
  have e0: "exchanges signed_in_world = []" by code_simp
  have tok: "map_of (localStorage signed_in_world) ''sb_token'' = Some ''abc123''" by code_simp
  have parsed: "parseCsvFile ?f = Inr ?rows" by code_simp
  have a: "map ?h (if nonEmptyFields (formData filled_form) = [] then []
             else [create_request (tableName call_list_props) (nonEmptyFields (formData filled_form))])
           = [(''http://localhost:8000/api/call_list_entries'', None)]"
    by code_simp
  have b: "map ?h (map (\<lambda>r. create_request (tableName call_list_props) (nonEmptyFields r))
                     (filter submitted ?rows))
           = [(''http://localhost:8000/api/call_list_entries'', None),
              (''http://localhost:8000/api/call_list_entries'', None)]"
    by code_simp
  have c: "map ?h [upload_request 7 ?f] = [(''http://localhost:8000/api/lists/7/upload-csv'', None)]"
    by code_simp
  have d: "map ?h [\<lparr>req_method = cfg_method (request_interceptor (localStorage signed_in_world) (list_entries_config ''call_list_entries'')),
           req_url = ''http://localhost:8000'' @ cfg_url (request_interceptor (localStorage signed_in_world) (list_entries_config ''call_list_entries'')),
           req_headers = (case cfg_headers (request_interceptor (localStorage signed_in_world) (list_entries_config ''call_list_entries'')) of
                            None \<Rightarrow> [] | Some hs \<Rightarrow> hs),
           req_body = cfg_data (request_interceptor (localStorage signed_in_world) (list_entries_config ''call_list_entries''))\<rparr>]
        = [(''http://localhost:8000/api/call_list_entries'', Some ''Bearer abc123'')]"
    by code_simp
  have sc7: "listId (call_list_props\<lparr>listId := Some 7\<rparr>) = Some 7" by simp
  have sel: "selectedFile (csv_chosen two_row_csv) = Some ?f" by (rule csv_chosen_file)
  have A: "map ?h (map fst (exchanges (snd (handleSave nw call_list_props filled_form signed_in_world))))
       = [(''http://localhost:8000/api/call_list_entries'', None)]"
    unfolding handleSave_requests e0 using a by simp
  have B: "map ?h (map fst (exchanges (snd (handleCsvUpload nw call_list_props
                           (csv_chosen two_row_csv) signed_in_world))))
       = [(''http://localhost:8000/api/call_list_entries'', None),
          (''http://localhost:8000/api/call_list_entries'', None)]"
    unfolding per_row_requests[OF sel no_scope_call_list parsed] e0 using b by simp
  have C: "map ?h (map fst (exchanges (snd (handleCsvUpload nw (call_list_props\<lparr>listId := Some 7\<rparr>)
                           (csv_chosen two_row_csv) signed_in_world))))
       = [(''http://localhost:8000/api/lists/7/upload-csv'', None)]"
    unfolding list_scoped_requests[OF sel sc7, simplified] e0 using c by simp
  have D: "map ?h (map fst (exchanges (snd (axios_request ''http://localhost:8000'' nw
                           (list_entries_config ''call_list_entries'') signed_in_world))))
       = [(''http://localhost:8000/api/call_list_entries'', Some ''Bearer abc123'')]"
    unfolding axios_requests e0 using d by simp
  show ?thesis by (intro conjI tok A B C D)
qed

end
